theory Spec2Isabelle
  imports Main "HOL-Library.Word" "HOL-Library.Char_ord" "HOL-Library.List_Lexorder"
begin

section \<open>The list command of the runtime (list.go)\<close>

subsection \<open>Values of the libraries the command uses\<close>

text \<open>
  A \<^verbatim>\<open>time.Time\<close> of the Go standard library is kept as the instant it denotes (seconds
  and nanoseconds since the Unix epoch) and the offset of its location. The list command
  never computes with a time; it only hands it to the library's formatters.
\<close>

record time =
  unix_sec :: int
  nsec :: nat
  zone_offset :: int

text \<open>
  Every \<^verbatim>\<open>error\<close> value the command can return: the four it builds itself
  (\<^verbatim>\<open>errors.New\<close>, \<^verbatim>\<open>fmt.Errorf\<close>), and \<open>ErrExternal\<close> for an error that comes
  back from the operating system or from a library (\<^verbatim>\<open>os.Stat\<close>, \<^verbatim>\<open>vci.ListPod\<close>,
  a write to the output file, the JSON encoder), carrying its message.
\<close>

datatype error =
    ErrInvalidRuntimeConfig
  | ErrNeedDirectory
  | ErrNotADirectory string
  | ErrStatType string
  | ErrInvalidFormatOption
  | ErrExternal string

text \<open>A JSON value, as \<^verbatim>\<open>encoding/json\<close> builds it from a Go value.\<close>

datatype json =
    JNull
  | JString string
  | JNumber int
  | JArray "json list"
  | JObject "(string \<times> json) list"

text \<open>\<^verbatim>\<open>syscall.Stat_t\<close> and \<^verbatim>\<open>os.FileInfo\<close>, with the parts \<^verbatim>\<open>getDirOwner\<close> reads.\<close>

record Stat_t =
  Uid :: "32 word"

record FileInfo =
  IsDir :: bool
  Sys :: "Stat_t option"

text \<open>
  The virtcontainers types the command reads (\<^verbatim>\<open>vc.HypervisorConfig\<close>,
  \<^verbatim>\<open>vc.ContainerStatus\<close>, \<^verbatim>\<open>vc.PodStatus\<close>, \<^verbatim>\<open>oci.RuntimeConfig\<close>) and the OCI
  state (\<^verbatim>\<open>spec.State\<close>) that \<^verbatim>\<open>oci.StatusToOCIState\<close> returns.
\<close>

record vc_HypervisorConfig =
  KernelPath :: string
  ImagePath :: string
  HypervisorPath :: string

record vc_ContainerStatus =
  ID :: string
  State :: string
  PID :: int
  StartTime :: time
  RootFs :: string
  Annotations :: "(string \<times> string) list"

record vc_PodStatus =
  ID :: string
  HypervisorConfig :: vc_HypervisorConfig
  ContainersStatus :: "vc_ContainerStatus list"

record oci_RuntimeConfig =
  HypervisorConfig :: vc_HypervisorConfig

record oci_State =
  Version :: string
  ID :: string
  Status :: string
  Pid :: int
  Bundle :: string
  Annotations :: "(string \<times> string) list"

text \<open>
  The library functions whose code is outside list.go are parameters of the model:
  \<^item> \<open>time_Format t layout\<close> is \<^verbatim>\<open>t.Format(layout)\<close>;
  \<^item> \<open>time_MarshalJSON t\<close> is \<^verbatim>\<open>t.MarshalJSON()\<close>, which can fail;
  \<^item> \<open>json_Marshal v\<close> is the text \<^verbatim>\<open>encoding/json\<close> writes for a JSON value;
  \<^item> \<open>tabwriter_Flush minwidth tabwidth padding padchar flags text\<close> is what a
    \<^verbatim>\<open>tabwriter.Writer\<close> made with these parameters sends to its output for the text
    written to it (the cells aligned in columns);
  \<^item> \<open>StatusToOCIState\<close> is \<^verbatim>\<open>oci.StatusToOCIState\<close>.
\<close>

record golib =
  time_Format :: "time \<Rightarrow> string \<Rightarrow> string"
  time_MarshalJSON :: "time \<Rightarrow> error + json"
  json_Marshal :: "json \<Rightarrow> string"
  tabwriter_Flush :: "nat \<Rightarrow> nat \<Rightarrow> nat \<Rightarrow> char \<Rightarrow> nat \<Rightarrow> string \<Rightarrow> string"
  StatusToOCIState :: "vc_ContainerStatus \<Rightarrow> oci_State"

text \<open>\<^verbatim>\<open>time.RFC3339Nano\<close>.\<close>

definition RFC3339Nano :: string where
  "RFC3339Nano = ''2006-01-02T15:04:05.999999999Z07:00''"

text \<open>
  What the command reads from the host: the pods \<^verbatim>\<open>vci.ListPod()\<close> returns (or its
  error) and the result of \<^verbatim>\<open>os.Stat\<close> on each path.
\<close>

record host =
  vci_ListPod :: "error + vc_PodStatus list"
  os_Stat :: "string \<Rightarrow> error + FileInfo"

text \<open>
  The \<^verbatim>\<open>cli.Context\<close> of the command: the \<^verbatim>\<open>runtimeConfig\<close> entry of the application
  metadata (\<open>None\<close> when it is missing or is not an \<^verbatim>\<open>oci.RuntimeConfig\<close>) and the three
  flags \<^verbatim>\<open>format\<close>, \<^verbatim>\<open>quiet\<close> and \<^verbatim>\<open>cc-all\<close>.
\<close>

record cli_Context =
  Metadata_runtimeConfig :: "oci_RuntimeConfig option"
  flag_format :: string
  flag_quiet :: bool
  flag_cc_all :: bool

text \<open>
  The output file: the bytes written to it so far, and the error its writes return when
  the descriptor is closed or broken. A write appends its bytes or returns that error.
\<close>

record os_File =
  contents :: string
  fault :: "error option"

definition file_Write :: "os_File \<Rightarrow> string \<Rightarrow> error option \<times> os_File" where
  "file_Write f bytes =
     (case fault f of
        Some err \<Rightarrow> (Some err, f)
      | None \<Rightarrow> (None, f\<lparr>contents := contents f @ bytes\<rparr>))"

definition TAB :: char where
  "TAB = CHR 0x09"

definition NL :: char where
  "NL = CHR 0x0A"

text \<open>The verbs of \<^verbatim>\<open>fmt\<close> the command uses on numbers: decimal digits.\<close>

function nat_decimal :: "nat \<Rightarrow> string" where
  "nat_decimal n =
     (if n < 10 then [''0123456789'' ! n]
      else nat_decimal (n div 10) @ [''0123456789'' ! (n mod 10)])"
  by pat_completeness auto
termination
  by (relation "measure id") auto

declare nat_decimal.simps [simp del]

definition fmt_d :: "int \<Rightarrow> string" where
  "fmt_d i = (if i < 0 then ''-'' @ nat_decimal (nat (- i)) else nat_decimal (nat i))"

definition fmt_v_uint32 :: "32 word \<Rightarrow> string" where
  "fmt_v_uint32 w = nat_decimal (unat w)"

subsection \<open>Data model of list.go\<close>

text \<open>\<^verbatim>\<open>hypervisorDetails\<close> (list.go, lines 60-64).\<close>

record hypervisorDetails =
  HypervisorPath :: string
  ImagePath :: string
  KernelPath :: string

text \<open>
  \<^verbatim>\<open>containerState\<close> (list.go, lines 37-56). \<^verbatim>\<open>Annotations\<close> is a Go map, kept as an
  association list; the only operations on it are the emptiness test of
  \<^verbatim>\<open>omitempty\<close> and the enumeration of its entries by the JSON encoder.
\<close>

record containerState =
  Version :: string
  ID :: string
  InitProcessPid :: int
  Status :: string
  Bundle :: string
  Rootfs :: string
  Created :: time
  Annotations :: "(string \<times> string) list"
  Owner :: string

text \<open>
  \<^verbatim>\<open>fullContainerState\<close> (list.go, lines 68-73) embeds \<^verbatim>\<open>containerState\<close>: the record
  extends it, as the Go struct promotes the embedded fields.
\<close>

record fullContainerState = containerState +
  CurrentHypervisorDetails :: hypervisorDetails
  LatestHypervisorDetails :: hypervisorDetails
  StaleAssets :: "string list"

subsection \<open>Stale assets\<close>

text \<open>
  \<^verbatim>\<open>getStaleAssets\<close> (list.go, lines 151-163). The Go slice starts as nil and grows by
  \<^verbatim>\<open>append\<close>; the nil slice is the empty list.
\<close>

definition getStaleAssets :: "hypervisorDetails \<Rightarrow> hypervisorDetails \<Rightarrow> string list" where
  "getStaleAssets old new =
     (let stale = [];
          stale = (if hypervisorDetails.KernelPath old \<noteq> hypervisorDetails.KernelPath new
                   then stale @ [''kernel''] else stale);
          stale = (if hypervisorDetails.ImagePath old \<noteq> hypervisorDetails.ImagePath new
                   then stale @ [''image''] else stale)
      in stale)"

text \<open>\<^verbatim>\<open>strings.Join\<close> of the Go standard library.\<close>

fun strings_Join :: "string list \<Rightarrow> string \<Rightarrow> string" where
  "strings_Join [] sep = []"
| "strings_Join [x] sep = x"
| "strings_Join (x # y # ys) sep = x @ sep @ strings_Join (y # ys) sep"

text \<open>
  The text of the STALE column, as \<^verbatim>\<open>formatTabular.Write\<close> computes it in place
  (list.go, lines 203-206).
\<close>

definition staleColumn :: "string list \<Rightarrow> string" where
  "staleColumn assets =
     (let stale = strings_Join assets '','' in if stale = '''' then ''-'' else stale)"

subsection \<open>Reading the containers\<close>

text \<open>\<^verbatim>\<open>getDirOwner\<close> (list.go, lines 231-250).\<close>

definition getDirOwner :: "host \<Rightarrow> string \<Rightarrow> error + 32 word" where
  "getDirOwner h dir =
     (if dir = '''' then Inl ErrNeedDirectory
      else case os_Stat h dir of
        Inl err \<Rightarrow> Inl err
      | Inr st \<Rightarrow>
          if \<not> IsDir st then Inl (ErrNotADirectory dir)
          else case Sys st of
            None \<Rightarrow> Inl (ErrStatType dir)
          | Some statType \<Rightarrow> Inr (Uid statType))"

text \<open>\<^verbatim>\<open>getHypervisorDetails\<close> (list.go, lines 314-320).\<close>

definition getHypervisorDetails :: "oci_RuntimeConfig \<Rightarrow> hypervisorDetails" where
  "getHypervisorDetails runtimeConfig =
     \<lparr>HypervisorPath =
        vc_HypervisorConfig.HypervisorPath (oci_RuntimeConfig.HypervisorConfig runtimeConfig),
      ImagePath =
        vc_HypervisorConfig.ImagePath (oci_RuntimeConfig.HypervisorConfig runtimeConfig),
      KernelPath =
        vc_HypervisorConfig.KernelPath (oci_RuntimeConfig.HypervisorConfig runtimeConfig)\<rparr>"

text \<open>
  The record \<^verbatim>\<open>getContainers\<close> appends for one container (list.go, lines 280-305),
  given the owner's uid.
\<close>

definition containerRecord ::
  "golib \<Rightarrow> hypervisorDetails \<Rightarrow> hypervisorDetails \<Rightarrow> vc_ContainerStatus \<Rightarrow> 32 word
     \<Rightarrow> fullContainerState" where
  "containerRecord lib currentHypervisorDetails latestHypervisorDetails container uid =
     (let ociState = StatusToOCIState lib container;
          staleAssets = getStaleAssets currentHypervisorDetails latestHypervisorDetails;
          owner = ''#'' @ fmt_v_uint32 uid
      in \<lparr>Version = oci_State.Version ociState,
          ID = oci_State.ID ociState,
          InitProcessPid = oci_State.Pid ociState,
          Status = oci_State.Status ociState,
          Bundle = oci_State.Bundle ociState,
          Rootfs = RootFs container,
          Created = StartTime container,
          Annotations = oci_State.Annotations ociState,
          Owner = owner,
          CurrentHypervisorDetails = currentHypervisorDetails,
          LatestHypervisorDetails = latestHypervisorDetails,
          StaleAssets = staleAssets\<rparr>)"

text \<open>
  The inner loop of \<^verbatim>\<open>getContainers\<close> (list.go, lines 279-306), over the containers
  of one pod: \<open>s\<close> is the slice built so far. The first error of \<^verbatim>\<open>getDirOwner\<close>
  ends the function with that error.
\<close>

fun getContainers_pod ::
  "golib \<Rightarrow> host \<Rightarrow> hypervisorDetails \<Rightarrow> hypervisorDetails \<Rightarrow> vc_ContainerStatus list
     \<Rightarrow> fullContainerState list \<Rightarrow> error + fullContainerState list" where
  "getContainers_pod lib h current latest [] s = Inr s"
| "getContainers_pod lib h current latest (container # rest) s =
     (case getDirOwner h (RootFs container) of
        Inl err \<Rightarrow> Inl err
      | Inr uid \<Rightarrow>
          getContainers_pod lib h current latest rest
            (s @ [containerRecord lib current latest container uid]))"

text \<open>
  The \<^verbatim>\<open>currentHypervisorDetails\<close> of a pod, as the outer loop of \<^verbatim>\<open>getContainers\<close>
  builds it (list.go, lines 273-277).
\<close>

definition podHypervisorDetails :: "vc_PodStatus \<Rightarrow> hypervisorDetails" where
  "podHypervisorDetails pod =
     \<lparr>HypervisorPath = vc_HypervisorConfig.HypervisorPath (vc_PodStatus.HypervisorConfig pod),
      ImagePath = vc_HypervisorConfig.ImagePath (vc_PodStatus.HypervisorConfig pod),
      KernelPath = vc_HypervisorConfig.KernelPath (vc_PodStatus.HypervisorConfig pod)\<rparr>"

text \<open>The outer loop of \<^verbatim>\<open>getContainers\<close> (list.go, lines 267-307), over the pods.\<close>

fun getContainers_pods ::
  "golib \<Rightarrow> host \<Rightarrow> hypervisorDetails \<Rightarrow> vc_PodStatus list \<Rightarrow> fullContainerState list
     \<Rightarrow> error + fullContainerState list" where
  "getContainers_pods lib h latest [] s = Inr s"
| "getContainers_pods lib h latest (pod # rest) s =
     (if length (ContainersStatus pod) = 0 then getContainers_pods lib h latest rest s
      else
        let currentHypervisorDetails = podHypervisorDetails pod
        in case getContainers_pod lib h currentHypervisorDetails latest
                  (ContainersStatus pod) s of
             Inl err \<Rightarrow> Inl err
           | Inr s' \<Rightarrow> getContainers_pods lib h latest rest s')"

text \<open>\<^verbatim>\<open>getContainers\<close> (list.go, lines 252-310).\<close>

definition getContainers ::
  "golib \<Rightarrow> host \<Rightarrow> cli_Context \<Rightarrow> error + fullContainerState list" where
  "getContainers lib h context =
     (case Metadata_runtimeConfig context of
        None \<Rightarrow> Inl ErrInvalidRuntimeConfig
      | Some runtimeConfig \<Rightarrow>
          let latestHypervisorDetails = getHypervisorDetails runtimeConfig
          in case vci_ListPod h of
               Inl err \<Rightarrow> Inl err
             | Inr podList \<Rightarrow> getContainers_pods lib h latestHypervisorDetails podList [])"

subsection \<open>Writing the containers\<close>

text \<open>
  \<^verbatim>\<open>formatIDList.Write\<close> (list.go, lines 165-174): one \<^verbatim>\<open>Fprintln\<close> for each item, and
  the first write that fails ends the loop with its error. The result is the error
  returned (\<open>None\<close> for nil) and the file after the writes.
\<close>

fun formatIDList_Write ::
  "fullContainerState list \<Rightarrow> bool \<Rightarrow> os_File \<Rightarrow> error option \<times> os_File" where
  "formatIDList_Write [] showAll file = (None, file)"
| "formatIDList_Write (item # rest) showAll file =
     (case file_Write file (ID item @ [NL]) of
        (Some err, file') \<Rightarrow> (Some err, file')
      | (None, file') \<Rightarrow> formatIDList_Write rest showAll file')"

text \<open>
  \<^verbatim>\<open>formatTabular.Write\<close> (list.go, lines 176-224). \<open>tabular_header\<close> is the text of
  the two \<^verbatim>\<open>Fprint\<close> calls before the loop (lines 185-191), \<open>tabular_item\<close> the text
  of the \<^verbatim>\<open>Fprintf\<close> calls of one round of the loop (lines 194-220), and
  \<open>tabular_text\<close> all that is written to the tabwriter before it is flushed.
\<close>

definition tabular_header :: "bool \<Rightarrow> string" where
  "tabular_header showAll =
     (''ID'' @ [TAB] @ ''PID'' @ [TAB] @ ''STATUS'' @ [TAB] @ ''BUNDLE'' @ [TAB] @ ''CREATED''
        @ [TAB] @ ''OWNER'')
     @ (if showAll then
          [TAB] @ ''HYPERVISOR'' @ [TAB] @ ''KERNEL'' @ [TAB] @ ''IMAGE'' @ [TAB]
            @ ''LATEST-KERNEL'' @ [TAB] @ ''LATEST-IMAGE'' @ [TAB] @ ''STALE'' @ [NL]
        else [NL])"

definition tabular_item :: "golib \<Rightarrow> fullContainerState \<Rightarrow> bool \<Rightarrow> string" where
  "tabular_item lib item showAll =
     (ID item @ [TAB] @ fmt_d (InitProcessPid item) @ [TAB] @ Status item @ [TAB]
        @ Bundle item @ [TAB] @ time_Format lib (Created item) RFC3339Nano @ [TAB]
        @ Owner item)
     @ (if showAll then
          let stale = staleColumn (StaleAssets item);
              current = CurrentHypervisorDetails item;
              latest = LatestHypervisorDetails item
          in [TAB] @ hypervisorDetails.HypervisorPath current
               @ [TAB] @ hypervisorDetails.KernelPath current
               @ [TAB] @ hypervisorDetails.ImagePath current
               @ [TAB] @ hypervisorDetails.KernelPath latest
               @ [TAB] @ hypervisorDetails.ImagePath latest
               @ [TAB] @ stale @ [NL]
        else [NL])"

definition tabular_text :: "golib \<Rightarrow> fullContainerState list \<Rightarrow> bool \<Rightarrow> string" where
  "tabular_text lib state showAll =
     tabular_header showAll @ concat (map (\<lambda>item. tabular_item lib item showAll) state)"

text \<open>
  The tabwriter is made with the values of lines 178-183 (flags 0, minimal width 12, tab
  width 1, padding 3, padding character space); \<^verbatim>\<open>w.Flush()\<close> sends the aligned text to
  the file and its error is the result.
\<close>

definition formatTabular_Write ::
  "golib \<Rightarrow> fullContainerState list \<Rightarrow> bool \<Rightarrow> os_File \<Rightarrow> error option \<times> os_File" where
  "formatTabular_Write lib state showAll file =
     (let flags = 0; minWidth = 12; tabWidth = 1; padding = 3
      in file_Write file
           (tabwriter_Flush lib minWidth tabWidth padding (CHR '' '') flags
              (tabular_text lib state showAll)))"

text \<open>
  The JSON value \<^verbatim>\<open>encoding/json\<close> builds for a \<^verbatim>\<open>hypervisorDetails\<close>: one member for
  each field, named by its tag, in the order of the fields.
\<close>

definition hypervisorDetails_json :: "hypervisorDetails \<Rightarrow> json" where
  "hypervisorDetails_json d =
     JObject [(''hypervisorPath'', JString (hypervisorDetails.HypervisorPath d)),
              (''imagePath'', JString (hypervisorDetails.ImagePath d)),
              (''kernelPath'', JString (hypervisorDetails.KernelPath d))]"

text \<open>
  The members of the JSON object for a \<^verbatim>\<open>fullContainerState\<close> (list.go, lines 37-73):
  the fields of the embedded \<^verbatim>\<open>containerState\<close> come first, each under the name of its
  tag; \<^verbatim>\<open>annotations\<close> is tagged \<^verbatim>\<open>omitempty\<close> and is left out when the map is empty,
  and its keys are written in sorted order; \<^verbatim>\<open>StaleAssets\<close> has no tag, so its member
  has the name of the field, and a nil slice is written as \<^verbatim>\<open>null\<close>. The time is
  encoded by its \<^verbatim>\<open>MarshalJSON\<close>, whose error is the error of the encoding.
\<close>

definition fullContainerState_members ::
  "golib \<Rightarrow> fullContainerState \<Rightarrow> error + (string \<times> json) list" where
  "fullContainerState_members lib st =
     (case time_MarshalJSON lib (Created st) of
        Inl err \<Rightarrow> Inl err
      | Inr created \<Rightarrow>
          Inr ([(''ociVersion'', JString (Version st)),
                (''id'', JString (ID st)),
                (''pid'', JNumber (InitProcessPid st)),
                (''status'', JString (Status st)),
                (''bundle'', JString (Bundle st)),
                (''rootfs'', JString (Rootfs st)),
                (''created'', created)]
               @ (if Annotations st = [] then []
                  else [(''annotations'',
                         JObject (map (\<lambda>(k, v). (k, JString v))
                                    (sort_key fst (Annotations st))))])
               @ [(''owner'', JString (Owner st)),
                  (''currentHypervisor'', hypervisorDetails_json (CurrentHypervisorDetails st)),
                  (''latestHypervisor'', hypervisorDetails_json (LatestHypervisorDetails st)),
                  (''StaleAssets'',
                   if StaleAssets st = [] then JNull
                   else JArray (map JString (StaleAssets st)))]))"

text \<open>The elements of the JSON array for a slice of states; the first error ends it.\<close>

fun states_json :: "golib \<Rightarrow> fullContainerState list \<Rightarrow> error + json list" where
  "states_json lib [] = Inr []"
| "states_json lib (st # rest) =
     (case fullContainerState_members lib st of
        Inl err \<Rightarrow> Inl err
      | Inr members \<Rightarrow>
          (case states_json lib rest of
             Inl err \<Rightarrow> Inl err
           | Inr js \<Rightarrow> Inr (JObject members # js)))"

text \<open>
  The JSON value for the slice \<^verbatim>\<open>getContainers\<close> returns. That slice is nil when no
  record was appended, and \<^verbatim>\<open>encoding/json\<close> writes a nil slice as \<^verbatim>\<open>null\<close>.
\<close>

definition state_json :: "golib \<Rightarrow> fullContainerState list \<Rightarrow> error + json" where
  "state_json lib state =
     (if state = [] then Inr JNull
      else case states_json lib state of
             Inl err \<Rightarrow> Inl err
           | Inr js \<Rightarrow> Inr (JArray js))"

text \<open>
  \<^verbatim>\<open>formatJSON.Write\<close> (list.go, lines 226-228): \<^verbatim>\<open>Encode\<close> builds the whole text first,
  and writes it, followed by a newline, in one write.
\<close>

definition formatJSON_Write ::
  "golib \<Rightarrow> fullContainerState list \<Rightarrow> bool \<Rightarrow> os_File \<Rightarrow> error option \<times> os_File" where
  "formatJSON_Write lib state showAll file =
     (case state_json lib state of
        Inl err \<Rightarrow> (Some err, file)
      | Inr j \<Rightarrow> file_Write file (json_Marshal lib j @ [NL]))"

subsection \<open>The command\<close>

text \<open>
  The \<^verbatim>\<open>Action\<close> of \<^verbatim>\<open>listCLICommand\<close> (list.go, lines 113-136); \<open>file\<close> is
  \<^verbatim>\<open>defaultOutputFile\<close>.
\<close>

definition list_Action ::
  "golib \<Rightarrow> host \<Rightarrow> cli_Context \<Rightarrow> os_File \<Rightarrow> error option \<times> os_File" where
  "list_Action lib h context file =
     (case getContainers lib h context of
        Inl err \<Rightarrow> (Some err, file)
      | Inr s \<Rightarrow>
          let showAll = flag_cc_all context
          in if flag_quiet context then formatIDList_Write s showAll file
             else if flag_format context = ''table'' then formatTabular_Write lib s showAll file
             else if flag_format context = ''json'' then formatJSON_Write lib s showAll file
             else (Some ErrInvalidFormatOption, file))"

subsection \<open>Cells of a line\<close>


subsection \<open>An example host\<close>

text \<open>
  A host to run the command on: the library functions are stand-ins (a fixed time text,
  a fixed JSON text, a tabwriter that sends its text through unchanged, an OCI state
  copied from the container status), two directories exist and are owned
  by uid 1000, the pods run an older kernel than the configured one, and the output file
  is empty and writable.
\<close>

definition example_time :: time where
  "example_time = \<lparr>unix_sec = 1496311200, nsec = 500000000, zone_offset = 0\<rparr>"

definition example_lib :: golib where
  "example_lib =
     \<lparr>time_Format = (\<lambda>t layout. ''2017-06-01T10:00:00.5Z''),
      time_MarshalJSON = (\<lambda>t. Inr (JString ''2017-06-01T10:00:00.5Z'')),
      json_Marshal = (\<lambda>j. case j of JNull \<Rightarrow> ''null'' | _ \<Rightarrow> ''[{}]''),
      tabwriter_Flush = (\<lambda>minwidth tabwidth padding padchar flags written. written),
      StatusToOCIState = (\<lambda>status.
        \<lparr>oci_State.Version = ''1.0.0-rc5'',
         oci_State.ID = vc_ContainerStatus.ID status,
         oci_State.Status = State status,
         oci_State.Pid = PID status,
         oci_State.Bundle = ''/var/lib/bundle'',
         oci_State.Annotations = vc_ContainerStatus.Annotations status\<rparr>)\<rparr>"

definition example_container :: "string \<Rightarrow> vc_ContainerStatus" where
  "example_container name =
     \<lparr>vc_ContainerStatus.ID = name, State = ''running'', PID = 4242,
      StartTime = example_time, RootFs = ''/run/'' @ name,
      vc_ContainerStatus.Annotations = []\<rparr>"

definition example_pod :: "string \<Rightarrow> vc_ContainerStatus list \<Rightarrow> vc_PodStatus" where
  "example_pod name containers =
     \<lparr>vc_PodStatus.ID = name,
      vc_PodStatus.HypervisorConfig =
        \<lparr>vc_HypervisorConfig.KernelPath = ''/usr/share/vmlinux-old'',
         vc_HypervisorConfig.ImagePath = ''/usr/share/cc.img'',
         vc_HypervisorConfig.HypervisorPath = ''/usr/bin/qemu-lite''\<rparr>,
      ContainersStatus = containers\<rparr>"

definition example_pods :: "vc_PodStatus list" where
  "example_pods =
     [example_pod ''p0'' [],
      example_pod ''p1'' [example_container ''a'', example_container ''b'']]"

definition example_host :: "vc_PodStatus list \<Rightarrow> host" where
  "example_host pods =
     \<lparr>vci_ListPod = Inr pods,
      os_Stat = (\<lambda>path.
        if path = ''/run/a'' \<or> path = ''/run/b''
        then Inr \<lparr>IsDir = True, Sys = Some \<lparr>Uid = 1000\<rparr>\<rparr>
        else Inl (ErrExternal ''no such file or directory''))\<rparr>"

definition example_context :: "string \<Rightarrow> bool \<Rightarrow> bool \<Rightarrow> cli_Context" where
  "example_context fmt quiet showAll =
     \<lparr>Metadata_runtimeConfig =
        Some \<lparr>oci_RuntimeConfig.HypervisorConfig =
          \<lparr>vc_HypervisorConfig.KernelPath = ''/usr/share/vmlinux'',
           vc_HypervisorConfig.ImagePath = ''/usr/share/cc.img'',
           vc_HypervisorConfig.HypervisorPath = ''/usr/bin/qemu-lite''\<rparr>\<rparr>,
      flag_format = fmt, flag_quiet = quiet, flag_cc_all = showAll\<rparr>"

definition example_stdout :: os_File where
  "example_stdout = \<lparr>contents = '''', fault = None\<rparr>"

text \<open>The record \<^verbatim>\<open>getContainers\<close> returns on the example host for a container.\<close>

definition example_record :: "string \<Rightarrow> fullContainerState" where
  "example_record name =
     \<lparr>Version = ''1.0.0-rc5'', ID = name, InitProcessPid = 4242, Status = ''running'',
      Bundle = ''/var/lib/bundle'', Rootfs = ''/run/'' @ name, Created = example_time,
      Annotations = [], Owner = ''#1000'',
      CurrentHypervisorDetails =
        \<lparr>HypervisorPath = ''/usr/bin/qemu-lite'', ImagePath = ''/usr/share/cc.img'',
         KernelPath = ''/usr/share/vmlinux-old''\<rparr>,
      LatestHypervisorDetails =
        \<lparr>HypervisorPath = ''/usr/bin/qemu-lite'', ImagePath = ''/usr/share/cc.img'',
         KernelPath = ''/usr/share/vmlinux''\<rparr>,
      StaleAssets = [''kernel'']\<rparr>"

lemmas model_defs = getContainers_def getDirOwner_def getHypervisorDetails_def
  podHypervisorDetails_def containerRecord_def getStaleAssets_def fmt_v_uint32_def fmt_d_def
  nat_decimal.simps list_Action_def formatTabular_Write_def formatJSON_Write_def file_Write_def
  tabular_text_def tabular_header_def tabular_item_def staleColumn_def state_json_def
  fullContainerState_members_def hypervisorDetails_json_def

lemmas example_defs = example_time_def example_lib_def example_container_def example_pod_def
  example_pods_def example_host_def example_context_def example_stdout_def example_record_def

lemmas eval_defs = example_defs model_defs Let_def

section \<open>Properties\<close>

subsection \<open>Auxiliary facts\<close>


lemma formatIDList_Write_showAll:
  "formatIDList_Write state a f = formatIDList_Write state b f"
  by (induction state a f rule: formatIDList_Write.induct)
     (auto split: prod.splits option.splits)

lemma formatIDList_Write_ok:
  "fault f = None \<Longrightarrow>
   formatIDList_Write state showAll f =
     (None, f\<lparr>contents := contents f @ concat (map (\<lambda>item. ID item @ [NL]) state)\<rparr>)"
  by (induction state arbitrary: f) (auto simp: file_Write_def)

text \<open>The inner loop: it fails when some owner cannot be read, and appends otherwise.\<close>

lemma getContainers_pod_err:
  "container \<in> set cs \<Longrightarrow> getDirOwner h (RootFs container) = Inl e \<Longrightarrow>
   \<exists>e'. getContainers_pod lib h current latest cs s = Inl e'"
  by (induction cs arbitrary: s) (auto split: sum.splits)

lemma getContainers_pod_ok:
  "\<forall>container\<in>set cs. \<exists>uid. getDirOwner h (RootFs container) = Inr uid \<Longrightarrow>
   getContainers_pod lib h current latest cs s =
     Inr (s @ map (\<lambda>container. containerRecord lib current latest container
                     (projr (getDirOwner h (RootFs container)))) cs)"
  by (induction cs arbitrary: s) (auto split: sum.splits)

lemma getContainers_pod_Inr:
  assumes "getContainers_pod lib h current latest cs s = Inr s'"
  shows "(\<forall>container\<in>set cs. \<exists>uid. getDirOwner h (RootFs container) = Inr uid)
         \<and> s' = s @ map (\<lambda>container. containerRecord lib current latest container
                     (projr (getDirOwner h (RootFs container)))) cs"
proof -
  have all: "\<forall>container\<in>set cs. \<exists>uid. getDirOwner h (RootFs container) = Inr uid"
  proof
    fix container assume c: "container \<in> set cs"
    show "\<exists>uid. getDirOwner h (RootFs container) = Inr uid"
    proof (cases "getDirOwner h (RootFs container)")
      case (Inl e)
      from getContainers_pod_err[OF c Inl, of lib current latest s] assms show ?thesis by auto
    next
      case (Inr uid)
      then show ?thesis by blast
    qed
  qed
  with getContainers_pod_ok[OF all, of lib current latest s] assms show ?thesis by simp
qed

text \<open>The outer loop, likewise.\<close>

lemma getContainers_pods_err:
  "pod \<in> set pods \<Longrightarrow> container \<in> set (ContainersStatus pod) \<Longrightarrow>
   getDirOwner h (RootFs container) = Inl e \<Longrightarrow>
   \<exists>e'. getContainers_pods lib h latest pods s = Inl e'"
proof (induction pods arbitrary: s)
  case Nil
  then show ?case by simp
next
  case (Cons p ps)
  show ?case
  proof (cases "ContainersStatus p = []")
    case True
    with Cons show ?thesis by auto
  next
    case False
    show ?thesis
    proof (cases "getContainers_pod lib h (podHypervisorDetails p) latest (ContainersStatus p) s")
      case (Inl e')
      with False show ?thesis by simp
    next
      case (Inr s')
      from getContainers_pod_Inr[OF Inr] Cons.prems
      have "pod \<noteq> p" by auto
      with Cons.prems have "pod \<in> set ps" by simp
      from Cons.IH[OF this Cons.prems(2,3)] False Inr show ?thesis by simp
    qed
  qed
qed

lemma getContainers_pods_Inr:
  "getContainers_pods lib h latest pods s = Inr s' \<Longrightarrow>
   s' = s @ concat (map (\<lambda>pod. map (\<lambda>container.
            containerRecord lib (podHypervisorDetails pod) latest container
              (projr (getDirOwner h (RootFs container)))) (ContainersStatus pod)) pods)"
proof (induction pods arbitrary: s)
  case Nil
  then show ?case by simp
next
  case (Cons p ps)
  show ?case
  proof (cases "ContainersStatus p = []")
    case True
    with Cons show ?thesis by simp
  next
    case False
    with Cons.prems obtain s1 where
      s1: "getContainers_pod lib h (podHypervisorDetails p) latest (ContainersStatus p) s = Inr s1"
      and rest: "getContainers_pods lib h latest ps s1 = Inr s'"
      by (auto split: sum.splits)
    from getContainers_pod_Inr[OF s1] Cons.IH[OF rest] show ?thesis by simp
  qed
qed

lemma getContainers_pods_filter:
  "getContainers_pods lib h latest (filter (\<lambda>pod. ContainersStatus pod \<noteq> []) pods) s
     = getContainers_pods lib h latest pods s"
  by (induction pods arbitrary: s) (auto split: sum.splits)

lemma getContainers_pods_ListPod:
  "getContainers_pods lib (h\<lparr>vci_ListPod := x\<rparr>) latest pods s
     = getContainers_pods lib h latest pods s"
proof -
  have owner: "getDirOwner (h\<lparr>vci_ListPod := x\<rparr>) dir = getDirOwner h dir" for dir
    by (simp add: getDirOwner_def)
  have pod: "getContainers_pod lib (h\<lparr>vci_ListPod := x\<rparr>) current latest cs s
               = getContainers_pod lib h current latest cs s" for current cs s
    by (induction cs arbitrary: s) (simp_all add: owner split: sum.splits)
  show ?thesis
    by (induction pods arbitrary: s) (simp_all add: pod split: sum.splits)
qed

text \<open>What \<^verbatim>\<open>getContainers\<close> returns when it returns records.\<close>

lemma getContainers_Inr:
  assumes "getContainers lib h ctx = Inr s"
  shows "\<exists>runtimeConfig pods.
           Metadata_runtimeConfig ctx = Some runtimeConfig \<and> vci_ListPod h = Inr pods \<and>
           s = concat (map (\<lambda>pod. map (\<lambda>container.
                 containerRecord lib (podHypervisorDetails pod)
                   (getHypervisorDetails runtimeConfig) container
                   (projr (getDirOwner h (RootFs container)))) (ContainersStatus pod)) pods)"
proof -
  from assms obtain runtimeConfig where rc: "Metadata_runtimeConfig ctx = Some runtimeConfig"
    by (auto simp: getContainers_def split: option.splits)
  with assms obtain pods where pods: "vci_ListPod h = Inr pods"
    by (auto simp: getContainers_def split: sum.splits)
  with rc assms have
    "getContainers_pods lib h (getHypervisorDetails runtimeConfig) pods [] = Inr s"
    by (simp add: getContainers_def)
  from getContainers_pods_Inr[OF this] rc pods show ?thesis by simp
qed

lemma getContainers_format:
  "getContainers lib h (ctx\<lparr>flag_format := fmt\<rparr>) = getContainers lib h ctx"
  by (simp add: getContainers_def)

lemma example_getContainers:
  "getContainers example_lib (example_host example_pods) (example_context fmt quiet showAll)
     = Inr [example_record ''a'', example_record ''b'']"
  by (simp add: eval_defs)




subsection \<open>Stale assets\<close>





subsection \<open>The JSON output\<close>




subsection \<open>Errors while reading the containers\<close>

text \<open>
  Claim C4, as stated: when reading the owner fails for some container, the list
  command leaves that record out and prints the others. On the example host with the
  containers \<^verbatim>\<open>a\<close> (whose directory exists) and \<^verbatim>\<open>c\<close> (whose directory does not), the
  command returns the error of \<^verbatim>\<open>c\<close> and writes nothing, not even the row of \<^verbatim>\<open>a\<close>.
\<close>

theorem list_record_error_counterexample:
  "getDirOwner
       (example_host [example_pod ''p1'' [example_container ''a'', example_container ''c'']])
       (RootFs (example_container ''a'')) = Inr 1000
   \<and> list_Action example_lib
       (example_host [example_pod ''p1'' [example_container ''a'', example_container ''c'']])
       (example_context ''table'' False False) example_stdout
     = (Some (ErrExternal ''no such file or directory''), \<lparr>contents = '''', fault = None\<rparr>)"
  by (simp add: eval_defs)

text \<open>
  Claim C4, amended: when \<^verbatim>\<open>getDirOwner\<close> fails for the root filesystem of any
  container of any listed pod, \<^verbatim>\<open>getContainers\<close> returns an error and no records, and
  the list command returns that error and writes nothing to its output.
\<close>

theorem list_fails_on_record_error:
  assumes "Metadata_runtimeConfig ctx = Some runtimeConfig"
    and "vci_ListPod h = Inr pods"
    and "pod \<in> set pods" and "container \<in> set (ContainersStatus pod)"
    and "getDirOwner h (RootFs container) = Inl e"
  shows "\<exists>err. getContainers lib h ctx = Inl err \<and>
               list_Action lib h ctx f = (Some err, f)"
proof -
  from getContainers_pods_err[OF assms(3,4,5)] obtain err where
    "getContainers_pods lib h (getHypervisorDetails runtimeConfig) pods [] = Inl err"
    by blast
  with assms(1,2) have "getContainers lib h ctx = Inl err"
    by (simp add: getContainers_def)
  then show ?thesis by (simp add: list_Action_def)
qed

text \<open>The same host, asked for JSON: the directory of \<^verbatim>\<open>c\<close> is missing.\<close>

theorem list_fails_on_record_error_witness:
  "getDirOwner
       (example_host [example_pod ''p1'' [example_container ''a'', example_container ''c'']])
       (RootFs (example_container ''c'')) = Inl (ErrExternal ''no such file or directory'')
   \<and> (\<exists>err. getContainers example_lib
         (example_host [example_pod ''p1'' [example_container ''a'', example_container ''c'']])
         (example_context ''json'' False False) = Inl err
       \<and> list_Action example_lib
         (example_host [example_pod ''p1'' [example_container ''a'', example_container ''c'']])
         (example_context ''json'' False False) example_stdout = (Some err, example_stdout))"
proof -
  let ?pod = "example_pod ''p1'' [example_container ''a'', example_container ''c'']"
  let ?h = "example_host [?pod]"
  have rc: "Metadata_runtimeConfig (example_context ''json'' False False) =
      Some \<lparr>oci_RuntimeConfig.HypervisorConfig =
          \<lparr>vc_HypervisorConfig.KernelPath = ''/usr/share/vmlinux'',
           vc_HypervisorConfig.ImagePath = ''/usr/share/cc.img'',
           vc_HypervisorConfig.HypervisorPath = ''/usr/bin/qemu-lite''\<rparr>\<rparr>"
    by (simp add: example_context_def)
  have pods: "vci_ListPod ?h = Inr [?pod]" by (simp add: example_host_def)
  have pod: "?pod \<in> set [?pod]" by simp
  have c: "example_container ''c'' \<in> set (ContainersStatus ?pod)"
    by (simp add: example_pod_def)
  have e: "getDirOwner ?h (RootFs (example_container ''c''))
             = Inl (ErrExternal ''no such file or directory'')"
    by (simp add: eval_defs)
  from list_fails_on_record_error[OF rc pods pod c e, of example_lib example_stdout] e
  show ?thesis by simp
qed

subsection \<open>The format option\<close>

text \<open>
  Claim C5: without \<^verbatim>\<open>--quiet\<close>, a format other than \<^verbatim>\<open>table\<close> and \<^verbatim>\<open>json\<close> makes the
  action return an error and write nothing; the error is that of \<^verbatim>\<open>getContainers\<close>
  when reading the containers fails, and \<^verbatim>\<open>invalid format option\<close> otherwise. With
  \<^verbatim>\<open>table\<close> or \<^verbatim>\<open>json\<close>, containers that were read (and, for JSON, can be encoded)
  and a writable output, the action returns no error and has written the table or the
  JSON text.
\<close>

theorem list_Action_format:
  assumes "\<not> flag_quiet ctx"
  shows "(flag_format ctx \<noteq> ''table'' \<and> flag_format ctx \<noteq> ''json'' \<longrightarrow>
            list_Action lib h ctx f =
              (Some (case getContainers lib h ctx of
                       Inl err \<Rightarrow> err | Inr s \<Rightarrow> ErrInvalidFormatOption), f))
       \<and> (flag_format ctx = ''table'' \<and> getContainers lib h ctx = Inr s
              \<and> fault f = None \<longrightarrow>
            list_Action lib h ctx f =
              (None, f\<lparr>contents := contents f @
                 tabwriter_Flush lib 12 1 3 (CHR '' '') 0
                   (tabular_text lib s (flag_cc_all ctx))\<rparr>))
       \<and> (flag_format ctx = ''json'' \<and> getContainers lib h ctx = Inr s
              \<and> fault f = None \<and> state_json lib s = Inr j \<longrightarrow>
            list_Action lib h ctx f =
              (None, f\<lparr>contents := contents f @ json_Marshal lib j @ [NL]\<rparr>))"
  using assms
  by (auto simp: list_Action_def formatTabular_Write_def formatJSON_Write_def file_Write_def
           split: sum.splits)

text \<open>On the example host: \<^verbatim>\<open>yaml\<close> is refused, \<^verbatim>\<open>table\<close> and \<^verbatim>\<open>json\<close> are written.\<close>

theorem list_Action_format_witness:
  "\<not> flag_quiet (example_context ''yaml'' False True)
   \<and> list_Action example_lib (example_host example_pods) (example_context ''yaml'' False True)
         example_stdout
       = (Some ErrInvalidFormatOption, example_stdout)
   \<and> list_Action example_lib (example_host example_pods) (example_context ''table'' False True)
         example_stdout
       = (None, example_stdout\<lparr>contents :=
            tabular_text example_lib [example_record ''a'', example_record ''b''] True\<rparr>)
   \<and> list_Action example_lib (example_host example_pods) (example_context ''json'' False True)
         example_stdout
       = (None, example_stdout\<lparr>contents := ''[{}]'' @ [NL]\<rparr>)"
proof -
  have q: "\<not> flag_quiet (example_context fmt False True)" for fmt
    by (simp add: example_context_def)
  have fmt: "flag_format (example_context fmt False True) = fmt" for fmt
    by (simp add: example_context_def)
  have all: "flag_cc_all (example_context fmt False True)" for fmt
    by (simp add: example_context_def)
  have out: "fault example_stdout = None" "contents example_stdout = ''''"
    by (simp_all add: example_stdout_def)
  have j: "state_json example_lib [example_record ''a'', example_record ''b'']
             = Inr (JArray
                 [JObject (projr (fullContainerState_members example_lib (example_record ''a''))),
                  JObject (projr (fullContainerState_members example_lib (example_record ''b'')))])"
    by (simp add: eval_defs)
  have flush: "tabwriter_Flush example_lib a b c d e t = t" for a b c d e t
    by (simp add: example_lib_def)
  have marshal: "json_Marshal example_lib (JArray js) = ''[{}]''" for js
    by (simp add: example_lib_def)
  from list_Action_format[OF q, where fmt1 = "''yaml''" and lib = example_lib
          and h = "example_host example_pods" and f = example_stdout]
       list_Action_format[OF q, where fmt1 = "''table''" and lib = example_lib
          and h = "example_host example_pods" and f = example_stdout
          and s = "[example_record ''a'', example_record ''b'']"]
       list_Action_format[OF q, where fmt1 = "''json''" and lib = example_lib
          and h = "example_host example_pods" and f = example_stdout
          and s = "[example_record ''a'', example_record ''b'']"]
  show ?thesis
    by (simp add: q fmt all out j flush marshal example_getContainers)
qed

subsection \<open>The table\<close>




subsection \<open>The quiet flag\<close>

text \<open>
  Claim C8: with \<^verbatim>\<open>--quiet\<close> the action never looks at the format: whatever the format
  option is set to, the result is the same; and when the containers were read and the
  output is writable, the action returns no error and has written the identifier of
  each container, one on each line, and nothing else.
\<close>

theorem list_Action_quiet:
  assumes "flag_quiet ctx"
  shows "list_Action lib h (ctx\<lparr>flag_format := fmt\<rparr>) f = list_Action lib h ctx f
       \<and> (getContainers lib h ctx = Inr s \<and> fault f = None \<longrightarrow>
            list_Action lib h (ctx\<lparr>flag_format := fmt\<rparr>) f =
              (None, f\<lparr>contents := contents f @ concat (map (\<lambda>item. ID item @ [NL]) s)\<rparr>))"
  using assms
  by (auto simp: list_Action_def getContainers_format formatIDList_Write_ok split: sum.splits)

text \<open>On the example host, \<^verbatim>\<open>--quiet --format yaml\<close> prints the two identifiers.\<close>

theorem list_Action_quiet_witness:
  "flag_quiet (example_context ''table'' True False)
   \<and> list_Action example_lib (example_host example_pods)
         ((example_context ''table'' True False)\<lparr>flag_format := ''yaml''\<rparr>) example_stdout
       = list_Action example_lib (example_host example_pods)
           (example_context ''table'' True False) example_stdout
   \<and> list_Action example_lib (example_host example_pods)
         ((example_context ''table'' True False)\<lparr>flag_format := ''yaml''\<rparr>) example_stdout
       = (None, example_stdout\<lparr>contents := ''a'' @ [NL] @ ''b'' @ [NL]\<rparr>)"
proof -
  have q: "flag_quiet (example_context ''table'' True False)"
    by (simp add: example_context_def)
  have out: "fault example_stdout = None" "contents example_stdout = ''''"
    by (simp_all add: example_stdout_def)
  from list_Action_quiet[OF q, where lib = example_lib and h = "example_host example_pods"
          and fmt = "''yaml''" and f = example_stdout
          and s = "[example_record ''a'', example_record ''b'']"]
  show ?thesis
    by (auto simp: q out example_getContainers example_record_def)
qed

subsection \<open>Empty pods\<close>

text \<open>
  Claim C9: \<^verbatim>\<open>getContainers\<close> leaves out every pod without container statuses: its
  result is the same when these pods are removed from the list of pods, and every record
  it returns is the record of a container of a listed pod that has at least one
  container status.
\<close>

theorem getContainers_skips_empty_pods:
  assumes "vci_ListPod h = Inr pods"
  shows "getContainers lib
           (h\<lparr>vci_ListPod := Inr (filter (\<lambda>pod. ContainersStatus pod \<noteq> []) pods)\<rparr>) ctx
         = getContainers lib h ctx
       \<and> (getContainers lib h ctx = Inr s \<longrightarrow>
            (\<forall>item\<in>set s. \<exists>pod\<in>set pods. ContainersStatus pod \<noteq> [] \<and>
               (\<exists>container\<in>set (ContainersStatus pod). \<exists>uid.
                  getDirOwner h (RootFs container) = Inr uid \<and>
                  item = containerRecord lib (podHypervisorDetails pod)
                           (LatestHypervisorDetails item) container uid)))"
proof (intro conjI impI ballI)
  show "getContainers lib
           (h\<lparr>vci_ListPod := Inr (filter (\<lambda>pod. ContainersStatus pod \<noteq> []) pods)\<rparr>) ctx
         = getContainers lib h ctx"
    using assms
    by (simp add: getContainers_def getContainers_pods_ListPod getContainers_pods_filter
             split: option.splits)
next
  fix item
  assume ok: "getContainers lib h ctx = Inr s" and item: "item \<in> set s"
  from getContainers_Inr[OF ok] assms obtain runtimeConfig where
    rc: "Metadata_runtimeConfig ctx = Some runtimeConfig"
    and s: "s = concat (map (\<lambda>pod. map (\<lambda>container.
                 containerRecord lib (podHypervisorDetails pod)
                   (getHypervisorDetails runtimeConfig) container
                   (projr (getDirOwner h (RootFs container)))) (ContainersStatus pod)) pods)"
    by auto
  from ok rc assms have
    run: "getContainers_pods lib h (getHypervisorDetails runtimeConfig) pods [] = Inr s"
    by (simp add: getContainers_def)
  from item s obtain pod container where
    pod: "pod \<in> set pods" and container: "container \<in> set (ContainersStatus pod)"
    and eq: "item = containerRecord lib (podHypervisorDetails pod)
                      (getHypervisorDetails runtimeConfig) container
                      (projr (getDirOwner h (RootFs container)))"
    by auto
  have "\<exists>uid. getDirOwner h (RootFs container) = Inr uid"
  proof (cases "getDirOwner h (RootFs container)")
    case (Inl e)
    from getContainers_pods_err[OF pod container Inl,
           of lib "getHypervisorDetails runtimeConfig" "[]"] run
    show ?thesis by auto
  next
    case (Inr uid)
    then show ?thesis by blast
  qed
  then obtain uid where uid: "getDirOwner h (RootFs container) = Inr uid" by blast
  from eq have "LatestHypervisorDetails item = getHypervisorDetails runtimeConfig"
    by (simp add: containerRecord_def Let_def)
  with eq uid have "item = containerRecord lib (podHypervisorDetails pod)
                           (LatestHypervisorDetails item) container uid"
    by simp
  with pod container uid
  show "\<exists>pod\<in>set pods. ContainersStatus pod \<noteq> [] \<and>
               (\<exists>container\<in>set (ContainersStatus pod). \<exists>uid.
                  getDirOwner h (RootFs container) = Inr uid \<and>
                  item = containerRecord lib (podHypervisorDetails pod)
                           (LatestHypervisorDetails item) container uid)"
    by (intro bexI[of _ pod] conjI bexI[of _ container] exI[of _ uid]) auto
qed

text \<open>
  The example host lists the empty pod \<^verbatim>\<open>p0\<close> and the pod \<^verbatim>\<open>p1\<close> with two containers:
  the records are those of \<^verbatim>\<open>p1\<close>, with or without \<^verbatim>\<open>p0\<close> in the list.
\<close>

theorem getContainers_skips_empty_pods_witness:
  "vci_ListPod (example_host example_pods) = Inr example_pods
   \<and> filter (\<lambda>pod. ContainersStatus pod \<noteq> []) example_pods
       = [example_pod ''p1'' [example_container ''a'', example_container ''b'']]
   \<and> getContainers example_lib
         (example_host [example_pod ''p1'' [example_container ''a'', example_container ''b'']])
         (example_context ''table'' False True)
       = getContainers example_lib (example_host example_pods)
           (example_context ''table'' False True)
   \<and> getContainers example_lib (example_host example_pods) (example_context ''table'' False True)
       = Inr [example_record ''a'', example_record ''b'']"
proof -
  have pods: "vci_ListPod (example_host example_pods) = Inr example_pods"
    by (simp add: example_host_def)
  have flt: "filter (\<lambda>pod. ContainersStatus pod \<noteq> []) example_pods
       = [example_pod ''p1'' [example_container ''a'', example_container ''b'']]"
    by (simp add: example_pods_def example_pod_def)
  have upd: "(example_host example_pods)\<lparr>vci_ListPod := Inr ps\<rparr> = example_host ps" for ps
    by (simp add: example_host_def)
  from getContainers_skips_empty_pods[OF pods, where lib = example_lib
          and ctx = "example_context ''table'' False True"]
  show ?thesis
    by (simp add: pods flt upd example_getContainers)
qed

subsection \<open>The show-all flag\<close>

text \<open>
  Claim C10: \<^verbatim>\<open>formatJSON.Write\<close> and \<^verbatim>\<open>formatIDList.Write\<close> do not depend on their
  \<open>showAll\<close> argument: two calls that differ in it alone return the same error and
  leave the same bytes in the file. The table does depend on it: its text with all
  columns is never its text without.
\<close>

theorem showAll_only_tabular:
  "formatJSON_Write lib state showAll f = formatJSON_Write lib state showAll' f
   \<and> formatIDList_Write state showAll f = formatIDList_Write state showAll' f
   \<and> tabular_text lib state True \<noteq> tabular_text lib state False"
proof -
  have "tabular_text lib state True \<noteq> tabular_text lib state False"
    by (simp add: tabular_text_def tabular_header_def TAB_def NL_def)
  then show ?thesis
    by (simp add: formatJSON_Write_def formatIDList_Write_showAll[of state showAll f showAll'])
qed

end
